theory Spec2Isabelle
  imports Complex_Main
begin

section \<open>JavaScript values used by the dashboard plugin\<close>

text \<open>
  The plugin \<^verbatim>\<open>plugin/index.js\<close> handles configuration values of unknown shape (the
  \<^verbatim>\<open>root\<close> option, \<^verbatim>\<open>bundle.context\<close>, the definitions of a DefinePlugin, the stats
  options) and tests them for truthiness. They are modelled as a small datatype of
  JavaScript values. Objects are association lists from property names to values.
\<close>

datatype jsval =
    JUndefined
  | JNull
  | JBool bool
  | JNum rat
  | JStr string
  | JObj "(string \<times> jsval) list"

text \<open>JavaScript truthiness (ToBoolean) on these values.\<close>

fun truthy :: "jsval \<Rightarrow> bool" where
  "truthy JUndefined = False"
| "truthy JNull = False"
| "truthy (JBool b) = b"
| "truthy (JNum r) = (r \<noteq> 0)"
| "truthy (JStr s) = (s \<noteq> [])"
| "truthy (JObj ps) = True"

text \<open>\<^verbatim>\<open>a && b\<close> and \<^verbatim>\<open>a || b\<close> return one of their operands.\<close>

definition js_and :: "jsval \<Rightarrow> jsval \<Rightarrow> jsval" where
  "js_and a b = (if truthy a then b else a)"

definition js_or :: "jsval \<Rightarrow> jsval \<Rightarrow> jsval" where
  "js_or a b = (if truthy a then a else b)"

datatype error = TypeError | SyntaxError | ModuleNotFound | OtherError string

text \<open>
  Property read \<^verbatim>\<open>v[k]\<close> for the property names the plugin uses (none of them is a
  property of a primitive's prototype): reading from \<^verbatim>\<open>undefined\<close> or \<^verbatim>\<open>null\<close> throws a
  TypeError, reading from any other primitive gives \<^verbatim>\<open>undefined\<close>.
\<close>

fun get_prop :: "jsval \<Rightarrow> string \<Rightarrow> error + jsval" where
  "get_prop JUndefined k = Inl TypeError"
| "get_prop JNull k = Inl TypeError"
| "get_prop (JObj ps) k = Inr (case map_of ps k of None \<Rightarrow> JUndefined | Some v \<Rightarrow> v)"
| "get_prop v k = Inr JUndefined"

section \<open>Numbers of the build timer\<close>

text \<open>
  \<^verbatim>\<open>Date.now()\<close> is an integral number of milliseconds. The closure variable
  \<^verbatim>\<open>timer\<close> of \<^verbatim>\<open>apply\<close> is \<^verbatim>\<open>undefined\<close> (\<open>None\<close>) until the first compile signal
  stores \<^verbatim>\<open>Date.now()\<close> in it. \<^verbatim>\<open>Date.now() - undefined\<close> is \<^verbatim>\<open>NaN\<close>, every comparison
  with \<^verbatim>\<open>NaN\<close> is false, and \<^verbatim>\<open>NaN + "ms"\<close> is the string \<^verbatim>\<open>NaNms\<close>.
\<close>

datatype jsnum = Num int | NaN

fun to_number :: "int option \<Rightarrow> jsnum" where
  "to_number None = NaN"
| "to_number (Some t) = Num t"

fun js_minus :: "jsnum \<Rightarrow> jsnum \<Rightarrow> jsnum" where
  "js_minus (Num a) (Num b) = Num (a - b)"
| "js_minus a b = NaN"

fun js_ge :: "jsnum \<Rightarrow> int \<Rightarrow> bool" where
  "js_ge (Num a) k = (a \<ge> k)"
| "js_ge NaN k = False"

text \<open>
  \<^verbatim>\<open>time /= ONE_SECOND; time = Math.round(time)\<close>: the quotient rounded to the nearest
  integer, a tie going up (\<^verbatim>\<open>Math.round(2.5)\<close> is 3).
\<close>

fun round_div :: "jsnum \<Rightarrow> int \<Rightarrow> jsnum" where
  "round_div (Num a) k = Num ((2 * a + k) div (2 * k))"
| "round_div NaN k = NaN"

text \<open>Decimal rendering of an integral number, as \<^verbatim>\<open>time += "ms"\<close> converts it.\<close>

definition digit_char :: "nat \<Rightarrow> char" where
  "digit_char d = ''0123456789'' ! (d mod 10)"

fun digits :: "nat \<Rightarrow> string" where
  "digits n = (if n < 10 then [digit_char n] else digits (n div 10) @ [digit_char (n mod 10)])"

declare digits.simps [simp del]

definition int_to_string :: "int \<Rightarrow> string" where
  "int_to_string i = (if i < 0 then CHR ''-'' # digits (nat (- i)) else digits (nat i))"

fun num_to_string :: "jsnum \<Rightarrow> string" where
  "num_to_string (Num a) = int_to_string a"
| "num_to_string NaN = ''NaN''"

section \<open>The build timer label\<close>

definition ONE_SECOND :: int where
  "ONE_SECOND = 1000"

text \<open>
  \<^verbatim>\<open>getTimeMessage(timer)\<close>, with the value of \<^verbatim>\<open>Date.now()\<close> at the call as the
  argument \<open>now\<close>.
\<close>

definition getTimeMessage :: "int \<Rightarrow> int option \<Rightarrow> string" where
  "getTimeMessage now timer =
     (let time = js_minus (Num now) (to_number timer);
          time' = (if js_ge time ONE_SECOND
                   then num_to_string (round_div time ONE_SECOND) @ ''s''
                   else num_to_string time @ ''ms'')
      in '' ('' @ time' @ '')'')"

section \<open>Message batches\<close>

text \<open>
  A batch is the array handed to the handler; each entry is an object with a \<^verbatim>\<open>type\<close>
  and, except for \<^verbatim>\<open>{ type: "clear" }\<close>, a \<^verbatim>\<open>value\<close>.
\<close>

datatype entry = Entry (etype: string) (evalue: "jsval option")

type_synonym batch = "entry list"

section \<open>The plugin object and its collaborators\<close>

text \<open>
  What the variable \<^verbatim>\<open>handler\<close> of \<^verbatim>\<open>apply\<close> (and the field \<^verbatim>\<open>this.handler\<close>) can hold:
  the function supplied by the caller, \<^verbatim>\<open>noop\<close>, or
  \<^verbatim>\<open>this.socket.emit.bind(this.socket, "message")\<close>.
\<close>

datatype callee = UserHandler | Noop | SocketEmit

text \<open>
  The socket.io client is an external collaborator. The model keeps what the plugin
  does to it: the address it was opened with, whether \<^verbatim>\<open>close()\<close> was called, whether the
  one-shot \<^verbatim>\<open>mode\<close> listener is still registered, and the batches passed to
  \<^verbatim>\<open>emit("message", batch)\<close>, in order.
\<close>

record socket =
  sock_host :: jsval
  sock_port :: jsval
  closed :: bool
  mode_listener :: bool
  emitted :: "batch list"

record plugin =
  handler :: "callee option"
  host :: jsval
  port :: jsval
  root :: jsval
  socket :: "socket option"
  watching :: bool
  minimal :: jsval

definition DEFAULT_PORT :: jsval where
  "DEFAULT_PORT = JNum 9838"

definition DEFAULT_HOST :: jsval where
  "DEFAULT_HOST = JStr ''127.0.0.1''"

text \<open>
  The argument of the constructor: a function, an options object, or nothing.
  \<^verbatim>\<open>opt_handler\<close> tells whether \<^verbatim>\<open>options.handler\<close> is a function (any other truthy value
  would fail at the first call and is left out).
\<close>

record options =
  opt_host :: jsval
  opt_port :: jsval
  opt_root :: jsval
  opt_handler :: bool

datatype ctor_arg = ArgFunction | ArgOptions options | ArgNone

definition empty_options :: options where
  "empty_options =
     \<lparr>opt_host = JUndefined, opt_port = JUndefined, opt_root = JUndefined, opt_handler = False\<rparr>"

definition constructor :: "ctor_arg \<Rightarrow> plugin" where
  "constructor arg =
     (case arg of
        ArgFunction \<Rightarrow>
          \<lparr>handler = Some UserHandler, host = JUndefined, port = JUndefined,
           root = JUndefined, socket = None, watching = False, minimal = JUndefined\<rparr>
      | _ \<Rightarrow>
          let opts = (case arg of ArgOptions given \<Rightarrow> given | _ \<Rightarrow> empty_options)
          in \<lparr>handler = (if opt_handler opts then Some UserHandler else None),
              host = js_or (opt_host opts) DEFAULT_HOST,
              port = js_or (opt_port opts) DEFAULT_PORT,
              root = opt_root opts,
              socket = None, watching = False, minimal = JUndefined\<rparr>)"

subsection \<open>cleanup\<close>

definition close :: "socket \<Rightarrow> socket" where
  "close s = s\<lparr>closed := True\<rparr>"

definition cleanup :: "plugin \<Rightarrow> plugin" where
  "cleanup this =
     (if \<not> watching this \<and> socket this \<noteq> None
      then this\<lparr>handler := None, socket := map_option close (socket this)\<rparr>
      else this)"

subsection \<open>The environment\<close>

text \<open>
  Built-ins and Node modules the plugin calls are parameters of the model:
  \<^verbatim>\<open>JSON.parse\<close>, \<^verbatim>\<open>require\<close> (\<open>Inl\<close> when it throws), \<^verbatim>\<open>path.join\<close> with two strings,
  \<^verbatim>\<open>path.resolve\<close> with one string, and \<^verbatim>\<open>process.cwd()\<close>.
\<close>

record env =
  JSON_parse :: "jsval \<Rightarrow> error + jsval"
  require :: "string \<Rightarrow> error + jsval"
  path_join :: "string \<Rightarrow> string \<Rightarrow> string"
  path_resolve :: "string \<Rightarrow> string"
  cwd :: string

subsection \<open>getProjectRoot\<close>

text \<open>
  \<^verbatim>\<open>bundle.context && require(path.join(bundle.context, "package.json"))\<close>: the property
  read throws on a missing bundle, \<^verbatim>\<open>path.join\<close> throws a TypeError on an argument that is
  not a string, \<^verbatim>\<open>require\<close> throws when the file is missing or does not parse.
\<close>

definition try_context :: "env \<Rightarrow> jsval \<Rightarrow> error + jsval" where
  "try_context e bundle =
     (case get_prop bundle ''context'' of
        Inl err \<Rightarrow> Inl err
      | Inr ctx \<Rightarrow>
          if truthy ctx
          then (case ctx of
                  JStr dir \<Rightarrow> require e (path_join e dir ''package.json'')
                | _ \<Rightarrow> Inl TypeError)
          else Inr ctx)"

definition getProjectRoot :: "env \<Rightarrow> plugin \<Rightarrow> jsval \<Rightarrow> jsval" where
  "getProjectRoot e this bundle =
     (if truthy (root this) then root this
      else case (case try_context e bundle of
                   Inl err \<Rightarrow> None
                 | Inr v \<Rightarrow> if truthy v
                            then (case get_prop bundle ''context'' of
                                    Inl err \<Rightarrow> None | Inr ctx \<Rightarrow> Some ctx)
                            else None) of
             Some r \<Rightarrow> r
           | None \<Rightarrow>
               (case (case require e (path_resolve e ''package.json'') of
                        Inl err \<Rightarrow> None
                      | Inr v \<Rightarrow> if truthy v then Some (JStr (cwd e)) else None) of
                  Some r \<Rightarrow> r
                | None \<Rightarrow> JNull))"

subsection \<open>apply: reading NODE_ENV and choosing the handler\<close>

text \<open>
  An element of \<^verbatim>\<open>compiler.options.plugins\<close>: the name of its constructor and its own
  properties. \<^verbatim>\<open>pathinfo\<close> is \<^verbatim>\<open>compiler.options.output.pathinfo\<close>.
\<close>

record wplugin =
  constructor_name :: string
  own_props :: "(string \<times> jsval) list"

record compiler =
  plugins :: "wplugin list"
  pathinfo :: jsval

text \<open>
  lodash's \<^verbatim>\<open>getOr(default)(path)(object)\<close>: walk the path while the value is neither
  \<^verbatim>\<open>null\<close> nor \<^verbatim>\<open>undefined\<close>; a path that was not walked to its end, or that ends in
  \<^verbatim>\<open>undefined\<close>, gives the default.
\<close>

fun get_path :: "string list \<Rightarrow> jsval \<Rightarrow> jsval" where
  "get_path [] v = v"
| "get_path (k # ks) v =
     (case get_prop v k of Inl err \<Rightarrow> JUndefined | Inr w \<Rightarrow> get_path ks w)"

definition getOr :: "jsval \<Rightarrow> string list \<Rightarrow> jsval \<Rightarrow> jsval" where
  "getOr dflt path obj =
     (let r = get_path path obj in if r = JUndefined then dflt else r)"

definition definePlugin :: "compiler \<Rightarrow> jsval" where
  "definePlugin c =
     (case filter (\<lambda>p. constructor_name p = ''DefinePlugin'') (plugins c) of
        [] \<Rightarrow> JUndefined
      | p # _ \<Rightarrow> JObj (own_props p))"

definition default_node_env :: jsval where
  \<open>default_node_env = JStr ''"development"''\<close>

definition read_node_env :: "env \<Rightarrow> compiler \<Rightarrow> error + jsval" where
  "read_node_env e c =
     JSON_parse e
       (getOr default_node_env [''definitions'', ''process.env'', ''NODE_ENV''] (definePlugin c))"

text \<open>
  The state that \<^verbatim>\<open>apply\<close> sets up and its callbacks share: the plugin object, the
  variables \<^verbatim>\<open>handler\<close> and \<^verbatim>\<open>timer\<close> of the closure, the constant \<^verbatim>\<open>nodeEnv\<close>, and the
  batches the caller's function has been called with, in order.
\<close>

record bridge =
  this :: plugin
  handler_var :: callee
  timer :: "int option"
  nodeEnv :: jsval
  received :: "batch list"

definition new_socket :: "jsval \<Rightarrow> jsval \<Rightarrow> socket" where
  "new_socket h p =
     \<lparr>sock_host = h, sock_port = p, closed = False, mode_listener = True, emitted = []\<rparr>"

definition apply_plugin :: "env \<Rightarrow> compiler \<Rightarrow> plugin \<Rightarrow> error + (bridge \<times> compiler)" where
  "apply_plugin e c p =
     (let c' = c\<lparr>pathinfo := JBool True\<rparr>
      in case read_node_env e c' of
           Inl err \<Rightarrow> Inl err
         | Inr env_value \<Rightarrow>
             (case handler p of
                None \<Rightarrow>
                  Inr (\<lparr>this = p\<lparr>socket := Some (new_socket (host p) (port p))\<rparr>,
                        handler_var = Noop, timer = None, nodeEnv = env_value,
                        received = []\<rparr>, c')
              | Some h \<Rightarrow>
                  Inr (\<lparr>this = p, handler_var = h, timer = None, nodeEnv = env_value,
                        received = []\<rparr>, c')))"

subsection \<open>The callbacks registered by apply\<close>

text \<open>
  The stats object of the done signal: the results of \<^verbatim>\<open>hasErrors()\<close>, \<^verbatim>\<open>hasWarnings()\<close>,
  \<^verbatim>\<open>toJson()\<close>, the function \<^verbatim>\<open>toString(options)\<close>, and the two fields of
  \<^verbatim>\<open>stats.compilation.options\<close> that the callback reads.
\<close>

record stats =
  devServer :: jsval
  stats_option :: jsval
  hasErrors :: bool
  hasWarnings :: bool
  toJson :: jsval
  toString :: "jsval \<Rightarrow> string"

text \<open>
  The lifecycle signals of the bundler. A signal whose callback reads the clock carries
  the value of \<^verbatim>\<open>Date.now()\<close> at that moment. The other events are the socket's
  \<^verbatim>\<open>connect\<close>, the socket's \<^verbatim>\<open>mode\<close> with the value of \<^verbatim>\<open>args.minimal\<close>, and a call of
  \<^verbatim>\<open>cleanup()\<close>.
\<close>

datatype signal =
    WatchRun
  | Run
  | Compile int
  | Progress int jsval string
  | Invalid
  | Failed int
  | Done int stats

datatype event = Signal signal | Connect | Mode jsval | Cleanup

definition emit :: "socket \<Rightarrow> batch \<Rightarrow> socket" where
  "emit s b = s\<lparr>emitted := emitted s @ [b]\<rparr>"

text \<open>Calling the function a handler variable holds, with one batch.\<close>

definition call_handler :: "callee \<Rightarrow> batch \<Rightarrow> bridge \<Rightarrow> bridge" where
  "call_handler h b st =
     (case h of
        UserHandler \<Rightarrow> st\<lparr>received := received st @ [b]\<rparr>
      | Noop \<Rightarrow> st
      | SocketEmit \<Rightarrow> st\<lparr>this := (this st)\<lparr>socket := map_option (\<lambda>s. emit s b) (socket (this st))\<rparr>\<rparr>)"

definition statsOptions :: "stats \<Rightarrow> jsval" where
  "statsOptions s =
     js_or (js_or (js_and (devServer s)
                     (case get_prop (devServer s) ''stats'' of Inl err \<Rightarrow> JUndefined | Inr v \<Rightarrow> v))
                  (stats_option s))
           (JObj [(''colors'', JBool True)])"

text \<open>The assignments a callback makes before it calls the handler.\<close>

fun assignments :: "bridge \<Rightarrow> event \<Rightarrow> bridge" where
  "assignments st (Signal WatchRun) = st\<lparr>this := (this st)\<lparr>watching := True\<rparr>\<rparr>"
| "assignments st (Signal Run) = st\<lparr>this := (this st)\<lparr>watching := False\<rparr>\<rparr>"
| "assignments st (Signal (Compile now)) = st\<lparr>timer := Some now\<rparr>"
| "assignments st (Signal sig) = st"
| "assignments st Connect =
     (if socket (this st) = None then st else st\<lparr>handler_var := SocketEmit\<rparr>)"
| "assignments st (Mode m) =
     (case socket (this st) of
        None \<Rightarrow> st
      | Some s \<Rightarrow>
          if mode_listener s
          then st\<lparr>this := (this st)\<lparr>minimal := m, socket := Some (s\<lparr>mode_listener := False\<rparr>)\<rparr>\<rparr>
          else st)"
| "assignments st Cleanup = st\<lparr>this := cleanup (this st)\<rparr>"

text \<open>The array literal a callback passes to \<^verbatim>\<open>handler\<close>, if it calls it.\<close>

fun handler_call :: "bridge \<Rightarrow> event \<Rightarrow> batch option" where
  "handler_call st (Signal WatchRun) = None"
| "handler_call st (Signal Run) = None"
| "handler_call st (Signal (Compile now)) =
     Some [Entry ''status'' (Some (JStr ''Compiling''))]"
| "handler_call st (Signal (Progress now percent msg)) =
     Some [Entry ''status'' (Some (JStr ''Compiling'')),
           Entry ''progress'' (Some percent),
           Entry ''operations'' (Some (JStr (msg @ getTimeMessage now (timer st))))]"
| "handler_call st (Signal Invalid) =
     Some [Entry ''status'' (Some (JStr ''Invalidated'')),
           Entry ''progress'' (Some (JNum 0)),
           Entry ''operations'' (Some (JStr ''idle'')),
           Entry ''clear'' None]"
| "handler_call st (Signal (Failed now)) =
     Some [Entry ''status'' (Some (JStr ''Failed'')),
           Entry ''operations'' (Some (JStr (''idle'' @ getTimeMessage now (timer st))))]"
| "handler_call st (Signal (Done now s)) =
     Some [Entry ''status'' (Some (JStr ''Success'')),
           Entry ''progress'' (Some (JNum 0)),
           Entry ''operations'' (Some (JStr (''idle'' @ getTimeMessage now (timer st)))),
           Entry ''stats'' (Some (JObj [(''errors'', JBool (hasErrors s)),
                                        (''warnings'', JBool (hasWarnings s)),
                                        (''data'', toJson s)])),
           Entry ''log'' (Some (JStr (toString s (statsOptions s))))]"
| "handler_call st Connect =
     (if socket (this st) = None then None
      else Some [Entry ''nodeEnv'' (Some (nodeEnv st))])"
| "handler_call st (Mode m) = None"
| "handler_call st Cleanup = None"

text \<open>One event: the assignments, then the call of whatever \<^verbatim>\<open>handler\<close> holds by then.\<close>

definition step :: "bridge \<Rightarrow> event \<Rightarrow> bridge" where
  "step st ev =
     (let st' = assignments st ev
      in case handler_call st' ev of
           None \<Rightarrow> st'
         | Some b \<Rightarrow> call_handler (handler_var st') b st')"

fun run :: "bridge \<Rightarrow> event list \<Rightarrow> bridge" where
  "run st [] = st"
| "run st (ev # evs) = run (step st ev) evs"

text \<open>The batches the socket was asked to send; none when there is no socket.\<close>

definition sent :: "bridge \<Rightarrow> batch list" where
  "sent st = (case socket (this st) of None \<Rightarrow> [] | Some s \<Rightarrow> emitted s)"

text \<open>The batches the callbacks hand to the handler variable during a run, in order.\<close>

fun batches :: "bridge \<Rightarrow> event list \<Rightarrow> batch list" where
  "batches st [] = []"
| "batches st (ev # evs) =
     (case handler_call (assignments st ev) ev of None \<Rightarrow> [] | Some b \<Rightarrow> [b])
       @ batches (step st ev) evs"

text \<open>The clock value stored by the last compile signal of a run, if there is one.\<close>

fun last_compile :: "event list \<Rightarrow> int option" where
  "last_compile [] = None"
| "last_compile (ev # evs) =
     (case last_compile evs of
        Some t \<Rightarrow> Some t
      | None \<Rightarrow> (case ev of Signal (Compile now) \<Rightarrow> Some now | _ \<Rightarrow> None))"

section \<open>Example inputs\<close>

text \<open>
  Concrete inputs on which the model is run below. \<open>example_JSON_parse\<close> tabulates
  \<^verbatim>\<open>JSON.parse\<close> on the three strings the examples pass to it: two string literals, which
  it parses, and the bare word \<^verbatim>\<open>production\<close>, on which it throws a SyntaxError.
  \<open>example_env files\<close> is a file system whose loadable modules are \<open>files\<close>.
\<close>

definition example_JSON_parse :: "jsval \<Rightarrow> error + jsval" where
  \<open>example_JSON_parse v =
     (if v = JStr ''"development"'' then Inr (JStr ''development'')
      else if v = JStr ''"production"'' then Inr (JStr ''production'')
      else if v = JStr ''production'' then Inl SyntaxError
      else Inl (OtherError ''not tabulated''))\<close>

definition example_env :: "(string \<times> jsval) list \<Rightarrow> env" where
  "example_env files =
     \<lparr>JSON_parse = example_JSON_parse,
      require = (\<lambda>f. case map_of files f of None \<Rightarrow> Inl ModuleNotFound | Some v \<Rightarrow> Inr v),
      path_join = (\<lambda>dir f. dir @ ''/'' @ f),
      path_resolve = (\<lambda>f. ''/work/'' @ f),
      cwd = ''/work''\<rparr>"

definition plain_compiler :: compiler where
  "plain_compiler = \<lparr>plugins = [], pathinfo = JUndefined\<rparr>"

definition define_compiler :: "jsval \<Rightarrow> compiler" where
  "define_compiler v =
     \<lparr>plugins =
        [\<lparr>constructor_name = ''UglifyJsPlugin'', own_props = []\<rparr>,
         \<lparr>constructor_name = ''DefinePlugin'',
          own_props = [(''definitions'', JObj [(''process.env'', JObj [(''NODE_ENV'', v)])])]\<rparr>],
      pathinfo = JUndefined\<rparr>"

definition example_stats :: stats where
  "example_stats =
     \<lparr>devServer = JUndefined, stats_option = JUndefined, hasErrors = False,
      hasWarnings = True, toJson = JObj [(''hash'', JStr ''abc'')],
      toString = (\<lambda>opts. ''built'')\<rparr>"

definition socket_options :: options where
  "socket_options = empty_options\<lparr>opt_port := JNum 9840\<rparr>"

text \<open>The state after \<^verbatim>\<open>apply\<close>, for a run of the examples; \<open>None\<close> if \<^verbatim>\<open>apply\<close> threw.\<close>

definition applied :: "env \<Rightarrow> compiler \<Rightarrow> ctor_arg \<Rightarrow> bridge option" where
  "applied e c arg =
     (case apply_plugin e c (constructor arg) of Inl err \<Rightarrow> None | Inr (st, c') \<Rightarrow> Some st)"

text \<open>
  A plugin constructed with the options \<^verbatim>\<open>{ root: r }\<close>, and the contents of a
  \<^verbatim>\<open>package.json\<close>.
\<close>

definition rooted_plugin :: "jsval \<Rightarrow> plugin" where
  "rooted_plugin r = constructor (ArgOptions (empty_options\<lparr>opt_root := r\<rparr>))"

definition manifest :: jsval where
  "manifest = JObj [(''name'', JStr ''app'')]"

text \<open>
  The two states \<^verbatim>\<open>apply\<close> produces on a compiler without a DefinePlugin: for a plugin
  constructed with a function, and for one constructed with \<open>socket_options\<close>.
\<close>

definition handler_bridge :: bridge where
  "handler_bridge =
     \<lparr>this = \<lparr>handler = Some UserHandler, host = JUndefined, port = JUndefined,
              root = JUndefined, socket = None, watching = False, minimal = JUndefined\<rparr>,
      handler_var = UserHandler, timer = None, nodeEnv = JStr ''development'',
      received = []\<rparr>"

definition socket_bridge :: bridge where
  "socket_bridge =
     \<lparr>this = \<lparr>handler = None, host = JStr ''127.0.0.1'', port = JNum 9840,
              root = JUndefined,
              socket = Some \<lparr>sock_host = JStr ''127.0.0.1'', sock_port = JNum 9840,
                             closed = False, mode_listener = True, emitted = []\<rparr>,
              watching = False, minimal = JUndefined\<rparr>,
      handler_var = Noop, timer = None, nodeEnv = JStr ''development'',
      received = []\<rparr>"

section \<open>Running the examples\<close>

lemmas example_defs =
  applied_def apply_plugin_def constructor_def socket_options_def empty_options_def
  example_env_def plain_compiler_def read_node_env_def definePlugin_def getOr_def
  default_node_env_def example_JSON_parse_def js_or_def DEFAULT_HOST_def DEFAULT_PORT_def
  new_socket_def

lemma applied_handler_bridge:
  "applied (example_env []) plain_compiler ArgFunction = Some handler_bridge"
  by (simp add: example_defs handler_bridge_def)

lemma applied_socket_bridge:
  "applied (example_env []) plain_compiler (ArgOptions socket_options) = Some socket_bridge"
  by (simp add: example_defs socket_bridge_def)

section \<open>The build timer label (C1)\<close>

lemma round_half_up: "(2 * d + ONE_SECOND) div (2 * ONE_SECOND) = (d + 500) div 1000"
proof -
  have "(2 * d + ONE_SECOND) div (2 * ONE_SECOND) = (2 * (d + 500)) div (2 * 1000)"
    by (simp add: ONE_SECOND_def)
  also have "\<dots> = (d + 500) div 1000"
    by (rule div_mult_mult1) simp
  finally show ?thesis .
qed

lemma int_to_string_412: "int_to_string 412 = ''412''"
  by code_simp

lemma int_to_string_3: "int_to_string 3 = ''3''"
  by code_simp

text \<open>
  C1, as the claim states it, fails: for an elapsed time of 412 ms \<^verbatim>\<open>getTimeMessage\<close> does
  not return \<^verbatim>\<open>412ms\<close>, and for 3400 ms it does not return \<^verbatim>\<open>3s\<close>; the label is wrapped
  in a leading space and parentheses.
\<close>

theorem getTimeMessage_bare_label_counterexample:
  "getTimeMessage 412 (Some 0) \<noteq> ''412ms'' \<and> getTimeMessage 3400 (Some 0) \<noteq> ''3s''"
  by (simp add: getTimeMessage_def Let_def)

text \<open>
  C1, amended: for a timer started at \<open>t\<close> and read at \<open>now\<close>, with \<open>d = now - t\<close>,
  \<^verbatim>\<open>getTimeMessage\<close> returns a space, an opening parenthesis, the label and a closing
  parenthesis, where the label is \<open>d\<close> in decimal followed by \<^verbatim>\<open>ms\<close> when \<open>d < 1000\<close>, and
  \<open>d / 1000\<close> rounded to the nearest integer (a tie going up), in decimal, followed by
  \<^verbatim>\<open>s\<close> when \<open>d \<ge> 1000\<close>.
\<close>

theorem getTimeMessage_label:
  "(now - t < 1000 \<longrightarrow>
      getTimeMessage now (Some t) = '' ('' @ int_to_string (now - t) @ ''ms)'')
   \<and> (1000 \<le> now - t \<longrightarrow>
      getTimeMessage now (Some t) = '' ('' @ int_to_string ((now - t + 500) div 1000) @ ''s)'')"
proof (intro conjI impI)
  assume "now - t < 1000"
  then show "getTimeMessage now (Some t) = '' ('' @ int_to_string (now - t) @ ''ms)''"
    by (simp add: getTimeMessage_def ONE_SECOND_def)
next
  assume "1000 \<le> now - t"
  then have "js_ge (Num (now - t)) ONE_SECOND"
    by (simp add: ONE_SECOND_def)
  then show "getTimeMessage now (Some t)
      = '' ('' @ int_to_string ((now - t + 500) div 1000) @ ''s)''"
    using round_half_up [of "now - t"] by (simp add: getTimeMessage_def)
qed

theorem getTimeMessage_label_witness:
  "getTimeMessage 412 (Some 0) = '' (412ms)'' \<and> getTimeMessage 3400 (Some 0) = '' (3s)''"
  using getTimeMessage_label [of 412 0] getTimeMessage_label [of 3400 0]
  by (simp add: int_to_string_412 int_to_string_3)

section \<open>cleanup (C3)\<close>

text \<open>
  C3: calling \<^verbatim>\<open>cleanup()\<close> twice in succession leaves the same state as calling it once,
  and calling it while \<^verbatim>\<open>watching\<close> is true, or while there is no socket, changes nothing.
\<close>

theorem cleanup_idempotent:
  "run st [Cleanup, Cleanup] = run st [Cleanup]
   \<and> (watching (this st) \<or> socket (this st) = None \<longrightarrow> run st [Cleanup] = st)"
  by (cases "socket (this st)") (auto simp: step_def cleanup_def close_def)

theorem cleanup_idempotent_witness:
  "watching (this (step socket_bridge (Signal WatchRun)))
   \<and> run (step socket_bridge (Signal WatchRun)) [Cleanup] = step socket_bridge (Signal WatchRun)
   \<and> run socket_bridge [Cleanup] \<noteq> socket_bridge
   \<and> run socket_bridge [Cleanup, Cleanup] = run socket_bridge [Cleanup]"
  using cleanup_idempotent [of "step socket_bridge (Signal WatchRun)"]
    cleanup_idempotent [of socket_bridge]
  by (simp add: step_def socket_bridge_def cleanup_def close_def)

section \<open>The invalid batch (C6)\<close>

text \<open>
  C6: the callback of an invalid signal calls the handler exactly once, with the batch of
  exactly four entries status = Invalidated, progress = 0, operations = idle (no elapsed
  time) and clear (no value), in this order. The caller's function, or the socket once
  connected, receives exactly this batch; the no-op that stands in for the socket before
  it connects drops it.
\<close>

theorem invalid_batch_four_entries:
  "batches st [Signal Invalid] =
      [[Entry ''status'' (Some (JStr ''Invalidated'')),
        Entry ''progress'' (Some (JNum 0)),
        Entry ''operations'' (Some (JStr ''idle'')),
        Entry ''clear'' None]]
   \<and> (handler_var st = UserHandler \<longrightarrow>
        received (step st (Signal Invalid)) = received st @ batches st [Signal Invalid])
   \<and> (handler_var st = SocketEmit \<and> socket (this st) \<noteq> None \<longrightarrow>
        sent (step st (Signal Invalid)) = sent st @ batches st [Signal Invalid])
   \<and> (handler_var st = Noop \<longrightarrow> step st (Signal Invalid) = st)"
  by (auto simp: step_def call_handler_def sent_def emit_def)

theorem invalid_batch_four_entries_witness:
  "handler_var handler_bridge = UserHandler
   \<and> received (step handler_bridge (Signal Invalid)) =
      [[Entry ''status'' (Some (JStr ''Invalidated'')),
        Entry ''progress'' (Some (JNum 0)),
        Entry ''operations'' (Some (JStr ''idle'')),
        Entry ''clear'' None]]
   \<and> handler_var (step socket_bridge Connect) = SocketEmit
   \<and> socket (this (step socket_bridge Connect)) \<noteq> None
   \<and> sent (step (step socket_bridge Connect) (Signal Invalid)) =
      [[Entry ''nodeEnv'' (Some (JStr ''development''))],
       [Entry ''status'' (Some (JStr ''Invalidated'')),
        Entry ''progress'' (Some (JNum 0)),
        Entry ''operations'' (Some (JStr ''idle'')),
        Entry ''clear'' None]]
   \<and> handler_var socket_bridge = Noop
   \<and> step socket_bridge (Signal Invalid) = socket_bridge"
  using invalid_batch_four_entries [of handler_bridge]
    invalid_batch_four_entries [of "step socket_bridge Connect"]
    invalid_batch_four_entries [of socket_bridge]
  by (simp add: handler_bridge_def socket_bridge_def step_def call_handler_def sent_def emit_def)

section \<open>The stats entry of the done batch (C7)\<close>

text \<open>
  C7: the callback of a done signal hands over one batch, and the stats entry of that
  batch is the object whose \<^verbatim>\<open>errors\<close> is the result of \<^verbatim>\<open>stats.hasErrors()\<close>, whose
  \<^verbatim>\<open>warnings\<close> is the result of \<^verbatim>\<open>stats.hasWarnings()\<close> and whose \<^verbatim>\<open>data\<close> is the result of
  \<^verbatim>\<open>stats.toJson()\<close>, unchanged.
\<close>

theorem done_stats_entry:
  "\<exists>b. batches st [Signal (Done now s)] = [b]
       \<and> filter (\<lambda>e. etype e = ''stats'') b =
           [Entry ''stats'' (Some (JObj [(''errors'', JBool (hasErrors s)),
                                         (''warnings'', JBool (hasWarnings s)),
                                         (''data'', toJson s)]))]"
  by simp

section \<open>What a run delivers\<close>

text \<open>
  The callbacks change neither log before they call the handler, and a call of the
  handler appends its batch to the log of the function it holds.
\<close>

lemma received_assignments [simp]: "received (assignments st ev) = received st"
  by (induction st ev rule: assignments.induct) (auto split: option.splits)

lemma sent_assignments [simp]: "sent (assignments st ev) = sent st"
  by (induction st ev rule: assignments.induct)
     (auto simp: sent_def cleanup_def close_def split: option.splits)

lemma received_call_handler:
  "received (call_handler h b st) = received st @ (if h = UserHandler then [b] else [])"
  by (cases h) (simp_all add: call_handler_def)

lemma sent_call_handler:
  "sent (call_handler h b st)
     = sent st @ (if h = SocketEmit \<and> socket (this st) \<noteq> None then [b] else [])"
  by (cases h; cases "socket (this st)") (simp_all add: call_handler_def sent_def emit_def)

lemma batches_single:
  "batches st [ev] = (case handler_call (assignments st ev) ev of None \<Rightarrow> [] | Some b \<Rightarrow> [b])"
  by simp

lemma received_step:
  "received (step st ev)
     = received st @ (if handler_var (assignments st ev) = UserHandler then batches st [ev] else [])"
  by (simp add: step_def Let_def received_call_handler split: option.splits)

lemma sent_step:
  "sent (step st ev)
     = sent st @ (if handler_var (assignments st ev) = SocketEmit
                     \<and> socket (this (assignments st ev)) \<noteq> None
                  then batches st [ev] else [])"
  by (simp add: step_def Let_def sent_call_handler split: option.splits)

lemma received_run_subset:
  "set (received (run st evs)) \<subseteq> set (received st) \<union> set (batches st evs)"
proof (induction evs arbitrary: st)
  case Nil
  show ?case by simp
next
  case (Cons ev evs)
  have "set (received (step st ev)) \<subseteq> set (received st) \<union> set (batches st [ev])"
    by (auto simp: received_step simp del: batches.simps)
  moreover have "set (batches st (ev # evs)) = set (batches st [ev]) \<union> set (batches (step st ev) evs)"
    by simp
  ultimately show ?case using Cons.IH [of "step st ev"] by auto
qed

lemma sent_run_subset:
  "set (sent (run st evs)) \<subseteq> set (sent st) \<union> set (batches st evs)"
proof (induction evs arbitrary: st)
  case Nil
  show ?case by simp
next
  case (Cons ev evs)
  have "set (sent (step st ev)) \<subseteq> set (sent st) \<union> set (batches st [ev])"
    by (auto simp: sent_step simp del: batches.simps)
  moreover have "set (batches st (ev # evs)) = set (batches st [ev]) \<union> set (batches (step st ev) evs)"
    by simp
  ultimately show ?case using Cons.IH [of "step st ev"] by auto
qed

section \<open>After cleanup (C4)\<close>

text \<open>
  C4 does not hold of the code. \<^verbatim>\<open>cleanup()\<close> sets the field \<^verbatim>\<open>this.handler\<close> to null and
  closes the socket, but the callbacks call the variable \<^verbatim>\<open>handler\<close> of \<^verbatim>\<open>apply\<close>, which
  the connect callback has bound to \<^verbatim>\<open>this.socket.emit\<close> and which \<^verbatim>\<open>cleanup()\<close> does not
  touch. After connect and a successful cleanup, a compile signal still passes its batch
  to \<^verbatim>\<open>emit\<close> of the closed socket.
\<close>

theorem cleanup_leaves_socket_handler_active:
  "handler (this (run socket_bridge [Connect, Cleanup])) = None
   \<and> map_option closed (socket (this (run socket_bridge [Connect, Cleanup]))) = Some True
   \<and> handler_var (run socket_bridge [Connect, Cleanup]) = SocketEmit
   \<and> sent (run socket_bridge [Connect, Cleanup]) = [[Entry ''nodeEnv'' (Some (JStr ''development''))]]
   \<and> sent (run socket_bridge [Connect, Cleanup, Signal (Compile 0)]) =
       [[Entry ''nodeEnv'' (Some (JStr ''development''))],
        [Entry ''status'' (Some (JStr ''Compiling''))]]"
  by (simp add: socket_bridge_def step_def call_handler_def sent_def emit_def cleanup_def close_def)

section \<open>The elapsed time of a done signal without a compile signal (C8)\<close>

lemma timer_step:
  "timer (step st ev) = (case ev of Signal (Compile now) \<Rightarrow> Some now | _ \<Rightarrow> timer st)"
  by (cases ev; (cases "handler_var st")?)  (auto simp: step_def call_handler_def Let_def split: option.splits callee.splits signal.splits)


lemma timer_run:
  "timer (run st evs) = (case last_compile evs of None \<Rightarrow> timer st | Some t \<Rightarrow> Some t)"
proof (induction evs arbitrary: st)
  case Nil
  show ?case by simp
next
  case (Cons ev evs)
  show ?case
    by (simp add: Cons.IH timer_step split: option.splits event.splits signal.splits)
qed

lemma getTimeMessage_5000: "getTimeMessage 5000 (Some 0) = '' (5s)''"
  by code_simp

lemma getTimeMessage_undefined: "getTimeMessage now None = '' (NaNms)''"
  by (simp add: getTimeMessage_def)

lemma getTimeMessage_1412: "getTimeMessage 1412 (Some 1000) = '' (412ms)''"
  by code_simp

text \<open>
  C8, as the claim states it, fails: a done signal at clock value 5000 right after
  \<^verbatim>\<open>apply\<close>, with no compile signal before it, gives the operations entry
  \<^verbatim>\<open>idle (NaNms)\<close>, which is not what a start instant of zero would give
  (\<^verbatim>\<open>idle (5s)\<close>).
\<close>

theorem done_without_compile_counterexample:
  "batches handler_bridge [Signal (Done 5000 example_stats)] =
     [[Entry ''status'' (Some (JStr ''Success'')),
       Entry ''progress'' (Some (JNum 0)),
       Entry ''operations'' (Some (JStr ''idle (NaNms)'')),
       Entry ''stats'' (Some (JObj [(''errors'', JBool False), (''warnings'', JBool True),
                                    (''data'', JObj [(''hash'', JStr ''abc'')])])),
       Entry ''log'' (Some (JStr ''built''))]]
   \<and> ''idle (NaNms)'' \<noteq> ''idle'' @ getTimeMessage 5000 (Some 0)"
  by (simp add: handler_bridge_def example_stats_def getTimeMessage_undefined
      getTimeMessage_5000)

text \<open>
  C8, amended: a done signal never makes the elapsed-time computation fail. After a run
  that holds a compile signal, the operations entry of the done batch is \<^verbatim>\<open>idle\<close>
  followed by the label computed from the start instant of the most recent compile
  signal, whatever came between. After a run from \<^verbatim>\<open>apply\<close> with no compile signal at
  all the timer is still \<^verbatim>\<open>undefined\<close> and the operations entry is \<^verbatim>\<open>idle (NaNms)\<close>.
\<close>

theorem done_label_from_last_compile:
  "(last_compile evs = Some t \<longrightarrow>
      batches (run st evs) [Signal (Done now s)] =
        [[Entry ''status'' (Some (JStr ''Success'')),
          Entry ''progress'' (Some (JNum 0)),
          Entry ''operations'' (Some (JStr (''idle'' @ getTimeMessage now (Some t)))),
          Entry ''stats'' (Some (JObj [(''errors'', JBool (hasErrors s)),
                                       (''warnings'', JBool (hasWarnings s)),
                                       (''data'', toJson s)])),
          Entry ''log'' (Some (JStr (toString s (statsOptions s))))]])
   \<and> (last_compile evs = None \<and> timer st = None \<longrightarrow>
      batches (run st evs) [Signal (Done now s)] =
        [[Entry ''status'' (Some (JStr ''Success'')),
          Entry ''progress'' (Some (JNum 0)),
          Entry ''operations'' (Some (JStr ''idle (NaNms)'')),
          Entry ''stats'' (Some (JObj [(''errors'', JBool (hasErrors s)),
                                       (''warnings'', JBool (hasWarnings s)),
                                       (''data'', toJson s)])),
          Entry ''log'' (Some (JStr (toString s (statsOptions s))))]])"
  by (simp add: timer_run getTimeMessage_undefined)

theorem done_label_from_last_compile_witness:
  "last_compile [Signal (Compile 1000), Signal Invalid] = Some 1000
   \<and> batches (run handler_bridge [Signal (Compile 1000), Signal Invalid])
        [Signal (Done 1412 example_stats)] =
        [[Entry ''status'' (Some (JStr ''Success'')),
          Entry ''progress'' (Some (JNum 0)),
          Entry ''operations'' (Some (JStr ''idle (412ms)'')),
          Entry ''stats'' (Some (JObj [(''errors'', JBool False), (''warnings'', JBool True),
                                       (''data'', JObj [(''hash'', JStr ''abc'')])])),
          Entry ''log'' (Some (JStr ''built''))]]
   \<and> last_compile [Signal WatchRun] = None \<and> timer handler_bridge = None
   \<and> batches (run handler_bridge [Signal WatchRun]) [Signal (Done 1412 example_stats)] =
        [[Entry ''status'' (Some (JStr ''Success'')),
          Entry ''progress'' (Some (JNum 0)),
          Entry ''operations'' (Some (JStr ''idle (NaNms)'')),
          Entry ''stats'' (Some (JObj [(''errors'', JBool False), (''warnings'', JBool True),
                                       (''data'', JObj [(''hash'', JStr ''abc'')])])),
          Entry ''log'' (Some (JStr ''built''))]]"
  using done_label_from_last_compile [of "[Signal (Compile 1000), Signal Invalid]" 1000
      handler_bridge 1412 example_stats]
    done_label_from_last_compile [of "[Signal WatchRun]" _ handler_bridge 1412 example_stats]
  by (simp add: handler_bridge_def example_stats_def getTimeMessage_1412)

section \<open>The closed protocol (C10)\<close>

lemma handler_call_protocol:
  assumes "handler_call st ev = Some b"
  shows "b \<noteq> []
     \<and> (\<forall>e \<in> set b.
          etype e \<in> {''nodeEnv'', ''status'', ''progress'', ''operations'', ''clear'',
                      ''stats'', ''log''}
          \<and> (etype e = ''status'' \<longrightarrow>
               evalue e \<in> {Some (JStr ''Compiling''), Some (JStr ''Invalidated''),
                            Some (JStr ''Failed''), Some (JStr ''Success'')}))"
proof (cases ev)
  case (Signal sig)
  with assms show ?thesis by (cases sig) auto
next
  case Connect
  with assms show ?thesis by (auto split: if_splits)
next
  case (Mode m)
  with assms show ?thesis by simp
next
  case Cleanup
  with assms show ?thesis by simp
qed


lemma batches_protocol:
  "b \<in> set (batches st evs) \<Longrightarrow>
     b \<noteq> []
     \<and> (\<forall>e \<in> set b.
          etype e \<in> {''nodeEnv'', ''status'', ''progress'', ''operations'', ''clear'',
                      ''stats'', ''log''}
          \<and> (etype e = ''status'' \<longrightarrow>
               evalue e \<in> {Some (JStr ''Compiling''), Some (JStr ''Invalidated''),
                            Some (JStr ''Failed''), Some (JStr ''Success'')}))"
proof (induction evs arbitrary: st)
  case Nil
  then show ?case by simp
next
  case (Cons ev evs)
  from Cons.prems have "handler_call (assignments st ev) ev = Some b \<or> b \<in> set (batches (step st ev) evs)"
    by (auto split: option.splits)
  then show ?case
  proof
    assume "handler_call (assignments st ev) ev = Some b"
    then show ?thesis by (rule handler_call_protocol)
  next
    assume "b \<in> set (batches (step st ev) evs)"
    then show ?thesis by (rule Cons.IH)
  qed
qed

text \<open>
  C10: every batch a callback hands to the handler during a run (the connect callback's
  nodeEnv batch included) is non-empty, the type of each of its entries is one of
  nodeEnv, status, progress, operations, clear, stats and log, and the value of each
  status entry is one of Compiling, Invalidated, Failed and Success. What the caller's
  function receives and what the socket is asked to send during the run are among these
  batches.
\<close>

theorem emitted_batches_closed_protocol:
  "(\<forall>b \<in> set (batches st evs).
      b \<noteq> []
      \<and> (\<forall>e \<in> set b.
           etype e \<in> {''nodeEnv'', ''status'', ''progress'', ''operations'', ''clear'',
                       ''stats'', ''log''}
           \<and> (etype e = ''status'' \<longrightarrow>
                evalue e \<in> {Some (JStr ''Compiling''), Some (JStr ''Invalidated''),
                             Some (JStr ''Failed''), Some (JStr ''Success'')})))
   \<and> set (received (run st evs)) \<subseteq> set (received st) \<union> set (batches st evs)
   \<and> set (sent (run st evs)) \<subseteq> set (sent st) \<union> set (batches st evs)"
  using batches_protocol [of _ st evs] received_run_subset [of st evs] sent_run_subset [of st evs]
  by blast


theorem emitted_batches_closed_protocol_witness:
  "batches handler_bridge [Signal (Compile 0), Signal Invalid] =
     [[Entry ''status'' (Some (JStr ''Compiling''))],
      [Entry ''status'' (Some (JStr ''Invalidated'')),
       Entry ''progress'' (Some (JNum 0)),
       Entry ''operations'' (Some (JStr ''idle'')),
       Entry ''clear'' None]]
   \<and> received (run handler_bridge [Signal (Compile 0), Signal Invalid]) =
     [[Entry ''status'' (Some (JStr ''Compiling''))],
      [Entry ''status'' (Some (JStr ''Invalidated'')),
       Entry ''progress'' (Some (JNum 0)),
       Entry ''operations'' (Some (JStr ''idle'')),
       Entry ''clear'' None]]"
  using emitted_batches_closed_protocol [of handler_bridge "[Signal (Compile 0), Signal Invalid]"]
  by (simp add: handler_bridge_def step_def call_handler_def)

section \<open>Project root resolution (C2)\<close>

lemma try_context_truthy:
  "(\<exists>v. try_context e bundle = Inr v \<and> truthy v)
     \<longleftrightarrow> (\<exists>dir v. get_prop bundle ''context'' = Inr (JStr dir) \<and> dir \<noteq> []
              \<and> require e (path_join e dir ''package.json'') = Inr v \<and> truthy v)"
  by (auto simp: try_context_def split: sum.splits jsval.splits if_splits)

text \<open>
  C2: \<^verbatim>\<open>getProjectRoot\<close> is an ordered fallback. An option is set when it is truthy, as
  the code tests it, and a manifest loads when \<^verbatim>\<open>require\<close> returns a truthy value without
  throwing. If the root option is set it is returned as it is, whatever the other inputs
  are. Otherwise, if the bundle context is set and \<^verbatim>\<open>package.json\<close> joined to it loads, the
  bundle context is returned. Otherwise, if \<^verbatim>\<open>package.json\<close> resolved against the working
  directory loads, the working directory is returned. Otherwise the result is null. A
  missing bundle, a context that is not a string, and a failing \<^verbatim>\<open>require\<close> all count as
  the step not matching.
\<close>

theorem getProjectRoot_ordered_fallback:
  "(truthy (root p) \<longrightarrow> getProjectRoot e p bundle = root p)
   \<and> (\<not> truthy (root p)
        \<and> get_prop bundle ''context'' = Inr (JStr dir) \<and> dir \<noteq> []
        \<and> require e (path_join e dir ''package.json'') = Inr v \<and> truthy v \<longrightarrow>
        getProjectRoot e p bundle = JStr dir)
   \<and> (\<not> truthy (root p)
        \<and> \<not> (\<exists>dir' v'. get_prop bundle ''context'' = Inr (JStr dir') \<and> dir' \<noteq> []
                \<and> require e (path_join e dir' ''package.json'') = Inr v' \<and> truthy v')
        \<and> require e (path_resolve e ''package.json'') = Inr w \<and> truthy w \<longrightarrow>
        getProjectRoot e p bundle = JStr (cwd e))
   \<and> (\<not> truthy (root p)
        \<and> \<not> (\<exists>dir' v'. get_prop bundle ''context'' = Inr (JStr dir') \<and> dir' \<noteq> []
                \<and> require e (path_join e dir' ''package.json'') = Inr v' \<and> truthy v')
        \<and> \<not> (\<exists>w'. require e (path_resolve e ''package.json'') = Inr w' \<and> truthy w') \<longrightarrow>
        getProjectRoot e p bundle = JNull)"
proof (intro conjI impI)
  assume "truthy (root p)"
  then show "getProjectRoot e p bundle = root p"
    by (simp add: getProjectRoot_def)
next
  assume a: "\<not> truthy (root p)
        \<and> get_prop bundle ''context'' = Inr (JStr dir) \<and> dir \<noteq> []
        \<and> require e (path_join e dir ''package.json'') = Inr v \<and> truthy v"
  then have "try_context e bundle = Inr v" by (simp add: try_context_def)
  with a show "getProjectRoot e p bundle = JStr dir"
    by (simp add: getProjectRoot_def)
next
  assume a: "\<not> truthy (root p)
        \<and> \<not> (\<exists>dir' v'. get_prop bundle ''context'' = Inr (JStr dir') \<and> dir' \<noteq> []
                \<and> require e (path_join e dir' ''package.json'') = Inr v' \<and> truthy v')
        \<and> require e (path_resolve e ''package.json'') = Inr w \<and> truthy w"
  then have "\<not> (\<exists>v. try_context e bundle = Inr v \<and> truthy v)"
    using try_context_truthy [of e "bundle"] by blast
  with a show "getProjectRoot e p bundle = JStr (cwd e)"
    by (auto simp: getProjectRoot_def split: sum.splits)
next
  assume a: "\<not> truthy (root p)
        \<and> \<not> (\<exists>dir' v'. get_prop bundle ''context'' = Inr (JStr dir') \<and> dir' \<noteq> []
                \<and> require e (path_join e dir' ''package.json'') = Inr v' \<and> truthy v')
        \<and> \<not> (\<exists>w'. require e (path_resolve e ''package.json'') = Inr w' \<and> truthy w')"
  then have "\<not> (\<exists>v. try_context e bundle = Inr v \<and> truthy v)"
    using try_context_truthy [of e "bundle"] by blast
  with a show "getProjectRoot e p bundle = JNull"
    by (auto simp: getProjectRoot_def split: sum.splits)
qed


theorem getProjectRoot_ordered_fallback_witness:
  "getProjectRoot (example_env [(''/b/package.json'', manifest)]) (rooted_plugin (JStr ''/a''))
      (JObj [(''context'', JStr ''/b'')]) = JStr ''/a''
   \<and> getProjectRoot (example_env [(''/b/package.json'', manifest)]) (rooted_plugin JUndefined)
      (JObj [(''context'', JStr ''/b'')]) = JStr ''/b''
   \<and> getProjectRoot (example_env [(''/work/package.json'', manifest)]) (rooted_plugin JUndefined)
      (JObj [(''context'', JStr ''/b'')]) = JStr ''/work''
   \<and> getProjectRoot (example_env []) (rooted_plugin JUndefined)
      (JObj [(''context'', JStr ''/b'')]) = JNull"
  using getProjectRoot_ordered_fallback [of "rooted_plugin (JStr ''/a'')"
      "example_env [(''/b/package.json'', manifest)]" "JObj [(''context'', JStr ''/b'')]"]
    getProjectRoot_ordered_fallback [of "rooted_plugin JUndefined"
      "example_env [(''/b/package.json'', manifest)]" "JObj [(''context'', JStr ''/b'')]"
      "''/b''" manifest]
    getProjectRoot_ordered_fallback [of "rooted_plugin JUndefined"
      "example_env [(''/work/package.json'', manifest)]" "JObj [(''context'', JStr ''/b'')]"
      _ _ manifest]
    getProjectRoot_ordered_fallback [of "rooted_plugin JUndefined"
      "example_env []" "JObj [(''context'', JStr ''/b'')]"]
  by (simp add: rooted_plugin_def constructor_def empty_options_def example_env_def
      manifest_def js_or_def DEFAULT_HOST_def DEFAULT_PORT_def)


section \<open>Reading NODE_ENV (C5)\<close>

text \<open>Without a DefinePlugin the default \<^verbatim>\<open>"development"\<close> is what \<^verbatim>\<open>JSON.parse\<close> is given.\<close>

lemma node_env_absent_default:
  "definePlugin c = JUndefined \<Longrightarrow> read_node_env e c = JSON_parse e default_node_env"
  by (simp add: read_node_env_def getOr_def)

text \<open>
  C5 does not hold of the code: the lookup falls back to the default only when the
  constant is absent. When a DefinePlugin declares a NODE_ENV constant that
  \<^verbatim>\<open>JSON.parse\<close> rejects, such as the bare word \<^verbatim>\<open>production\<close>, nothing catches the
  SyntaxError and \<^verbatim>\<open>apply\<close> throws it.
\<close>

theorem node_env_parse_error_aborts_apply:
  "JSON_parse e v = Inl err \<Longrightarrow> v \<noteq> JUndefined \<Longrightarrow>
     apply_plugin e (define_compiler v) p = Inl err"
  by (simp add: apply_plugin_def read_node_env_def definePlugin_def define_compiler_def
      getOr_def)

theorem node_env_parse_error_aborts_apply_witness:
  "JSON_parse (example_env []) (JStr ''production'') = Inl SyntaxError
   \<and> JStr ''production'' \<noteq> JUndefined
   \<and> apply_plugin (example_env []) (define_compiler (JStr ''production'')) (constructor ArgNone)
       = Inl SyntaxError"
  using node_env_parse_error_aborts_apply [of "example_env []" "JStr ''production''" SyntaxError
      "constructor ArgNone"]
  by (simp add: example_env_def example_JSON_parse_def)

section \<open>Handler mode and socket mode (C9)\<close>

lemma run_append: "run st (xs @ ys) = run (run st xs) ys"
  by (induction xs arbitrary: st) simp_all

lemma batches_append: "batches st (xs @ ys) = batches st xs @ batches (run st xs) ys"
  by (induction xs arbitrary: st) simp_all

lemma handler_var_signal: "handler_var (step st (Signal sig)) = handler_var st"
  by (cases sig; cases "handler_var st") (simp_all add: step_def call_handler_def)

lemma socket_signal:
  "(socket (this (step st (Signal sig))) = None) = (socket (this st) = None)"
  by (cases sig; cases "handler_var st") (simp_all add: step_def call_handler_def)

lemma handler_call_signal_timer:
  "timer st = timer st' \<Longrightarrow>
     handler_call (assignments st (Signal sig)) (Signal sig)
       = handler_call (assignments st' (Signal sig)) (Signal sig)"
  by (cases sig) simp_all

lemma batches_timer:
  "timer st = timer st' \<Longrightarrow> batches st (map Signal sigs) = batches st' (map Signal sigs)"
proof (induction sigs arbitrary: st st')
  case Nil
  show ?case by simp
next
  case (Cons sig sigs)
  have "timer (step st (Signal sig)) = timer (step st' (Signal sig))"
    using Cons.prems by (simp add: timer_step split: signal.splits)
  then have "batches (step st (Signal sig)) (map Signal sigs)
      = batches (step st' (Signal sig)) (map Signal sigs)"
    by (rule Cons.IH)
  then show ?case
    using handler_call_signal_timer [OF Cons.prems, of sig] by simp
qed

lemma received_run_signals:
  "handler_var st = UserHandler \<Longrightarrow>
     received (run st (map Signal sigs)) = received st @ batches st (map Signal sigs)"
proof (induction sigs arbitrary: st)
  case Nil
  show ?case by simp
next
  case (Cons sig sigs)
  have "handler_var (step st (Signal sig)) = UserHandler"
    using Cons.prems by (simp add: handler_var_signal)
  then have "received (run (step st (Signal sig)) (map Signal sigs))
      = received (step st (Signal sig)) @ batches (step st (Signal sig)) (map Signal sigs)"
    by (rule Cons.IH)
  moreover have "handler_var (assignments st (Signal sig)) = UserHandler"
    using Cons.prems by (cases sig) simp_all
  ultimately show ?case by (simp add: received_step)
qed

lemma sent_run_signals_noop:
  "handler_var st = Noop \<Longrightarrow> sent (run st (map Signal sigs)) = sent st"
proof (induction sigs arbitrary: st)
  case Nil
  show ?case by simp
next
  case (Cons sig sigs)
  have "handler_var (step st (Signal sig)) = Noop"
    using Cons.prems by (simp add: handler_var_signal)
  then have "sent (run (step st (Signal sig)) (map Signal sigs)) = sent (step st (Signal sig))"
    by (rule Cons.IH)
  moreover have "handler_var (assignments st (Signal sig)) = Noop"
    using Cons.prems by (cases sig) simp_all
  ultimately show ?case by (simp add: sent_step)
qed

lemma sent_run_signals_emit:
  "handler_var st = SocketEmit \<Longrightarrow> socket (this st) \<noteq> None \<Longrightarrow>
     sent (run st (map Signal sigs)) = sent st @ batches st (map Signal sigs)"
proof (induction sigs arbitrary: st)
  case Nil
  show ?case by simp
next
  case (Cons sig sigs)
  have "handler_var (step st (Signal sig)) = SocketEmit"
    using Cons.prems by (simp add: handler_var_signal)
  moreover have "socket (this (step st (Signal sig))) \<noteq> None"
    using Cons.prems by (simp add: socket_signal)
  ultimately have "sent (run (step st (Signal sig)) (map Signal sigs))
      = sent (step st (Signal sig)) @ batches (step st (Signal sig)) (map Signal sigs)"
    by (rule Cons.IH)
  moreover have "handler_var (assignments st (Signal sig)) = SocketEmit
      \<and> socket (this (assignments st (Signal sig))) \<noteq> None"
    using Cons.prems by (cases sig) simp_all
  ultimately show ?case by (simp add: sent_step)
qed


lemma handler_var_run_signals: "handler_var (run st (map Signal sigs)) = handler_var st"
  by (induction sigs arbitrary: st) (simp_all add: handler_var_signal)

lemma socket_run_signals:
  "(socket (this (run st (map Signal sigs))) = None) = (socket (this st) = None)"
  by (induction sigs arbitrary: st) (simp_all add: socket_signal)

lemma nodeEnv_assignments: "nodeEnv (assignments st ev) = nodeEnv st"
  by (induction st ev rule: assignments.induct) (auto split: option.splits)

lemma nodeEnv_call_handler: "nodeEnv (call_handler h b st) = nodeEnv st"
  by (cases h) (simp_all add: call_handler_def)

lemma nodeEnv_step: "nodeEnv (step st ev) = nodeEnv st"
  by (simp add: step_def Let_def nodeEnv_assignments nodeEnv_call_handler split: option.splits)

lemma nodeEnv_run: "nodeEnv (run st evs) = nodeEnv st"
  by (induction evs arbitrary: st) (simp_all add: nodeEnv_step)

lemma apply_plugin_function:
  "apply_plugin e c (constructor ArgFunction) = Inr (bh, ch) \<Longrightarrow>
     handler_var bh = UserHandler \<and> timer bh = None \<and> received bh = []
     \<and> read_node_env e (c\<lparr>pathinfo := JBool True\<rparr>) = Inr (nodeEnv bh)"
  by (auto simp: apply_plugin_def constructor_def Let_def split: sum.splits)

lemma apply_plugin_socket:
  "apply_plugin e c (constructor (ArgOptions opts)) = Inr (bs, cs) \<Longrightarrow> \<not> opt_handler opts \<Longrightarrow>
     handler_var bs = Noop \<and> timer bs = None \<and> sent bs = [] \<and> socket (this bs) \<noteq> None
     \<and> read_node_env e (c\<lparr>pathinfo := JBool True\<rparr>) = Inr (nodeEnv bs)"
  by (auto simp: apply_plugin_def constructor_def Let_def sent_def new_socket_def
      split: sum.splits)

lemma connect_then_signals:
  assumes "socket (this st) \<noteq> None"
  shows "sent (run st (Connect # map Signal sigs))
     = sent st @ [Entry ''nodeEnv'' (Some (nodeEnv st))] # batches st (map Signal sigs)"
proof -
  define st' where "st' = step st Connect"
  have hv: "handler_var st' = SocketEmit"
    using assms by (auto simp: st'_def step_def call_handler_def Let_def)
  have sk: "socket (this st') \<noteq> None"
    using assms by (auto simp: st'_def step_def call_handler_def Let_def)
  have tm: "timer st' = timer st"
    by (simp add: st'_def timer_step)
  have sn: "sent st' = sent st @ [[Entry ''nodeEnv'' (Some (nodeEnv st))]]"
    using assms by (simp add: st'_def sent_step)
  have "sent (run st' (map Signal sigs)) = sent st' @ batches st' (map Signal sigs)"
    using hv sk by (rule sent_run_signals_emit)
  also have "batches st' (map Signal sigs) = batches st (map Signal sigs)"
    using tm by (rule batches_timer)
  finally have "sent (run st' (map Signal sigs)) = sent st' @ batches st (map Signal sigs)" .
  then have "sent (run st' (map Signal sigs))
      = sent st @ [Entry ''nodeEnv'' (Some (nodeEnv st))] # batches st (map Signal sigs)"
    by (simp add: sn)
  then show ?thesis
    by (simp add: st'_def)
qed

text \<open>
  C9, as the claim states it, fails: for the single signal compile, the caller's function
  receives the batch status = Compiling, while the socket is asked to send nothing when it
  has not connected, and a nodeEnv batch first when it has.
\<close>

theorem handler_mode_differs_from_socket_mode_counterexample:
  "applied (example_env []) plain_compiler ArgFunction = Some handler_bridge
   \<and> applied (example_env []) plain_compiler (ArgOptions socket_options) = Some socket_bridge
   \<and> received (run handler_bridge [Signal (Compile 0)])
        \<noteq> sent (run socket_bridge [Signal (Compile 0)])
   \<and> received (run handler_bridge [Signal (Compile 0)])
        \<noteq> sent (run socket_bridge [Connect, Signal (Compile 0)])"
  by (simp add: applied_handler_bridge applied_socket_bridge)
     (simp add: handler_bridge_def socket_bridge_def step_def call_handler_def sent_def
        emit_def)

text \<open>
  C9, amended: for the same compiler and every sequence of lifecycle signals, the
  callbacks hand the same batches to the handler variable in both modes. The caller's
  function receives every one of them. The socket is asked to send none of them while it
  has not connected; when it connects after the signals \<open>pre\<close>, it is asked to send one
  nodeEnv batch and then exactly the batches that the caller's function receives for the
  signals \<open>post\<close> that follow.
\<close>

theorem handler_mode_and_socket_mode_batches:
  assumes h: "apply_plugin e c (constructor ArgFunction) = Inr (bh, ch)"
    and s: "apply_plugin e c (constructor (ArgOptions opts)) = Inr (bs, cs)"
    and o: "\<not> opt_handler opts"
  shows "batches bs (map Signal (pre @ post)) = batches bh (map Signal (pre @ post))
    \<and> received (run bh (map Signal (pre @ post)))
        = batches bh (map Signal pre) @ batches (run bh (map Signal pre)) (map Signal post)
    \<and> sent (run bs (map Signal (pre @ post))) = []
    \<and> sent (run bs (map Signal pre @ Connect # map Signal post))
        = [Entry ''nodeEnv'' (Some (nodeEnv bh))]
            # batches (run bh (map Signal pre)) (map Signal post)"
proof -
  note H = apply_plugin_function [OF h]
  note S = apply_plugin_socket [OF s o]
  have env_eq: "nodeEnv bs = nodeEnv bh" using H S by simp
  have timers: "timer bs = timer bh" using H S by simp
  have 1: "batches bs (map Signal (pre @ post)) = batches bh (map Signal (pre @ post))"
    using timers by (rule batches_timer)
  have "received (run bh (map Signal (pre @ post))) = batches bh (map Signal (pre @ post))"
    using H received_run_signals [of bh "pre @ post"] by simp
  then have 2: "received (run bh (map Signal (pre @ post)))
        = batches bh (map Signal pre) @ batches (run bh (map Signal pre)) (map Signal post)"
    by (simp add: batches_append)
  have 3: "sent (run bs (map Signal (pre @ post))) = []"
    using S sent_run_signals_noop [of bs "pre @ post"] by simp
  define st where "st = run bs (map Signal pre)"
  have sock: "socket (this st) \<noteq> None"
    unfolding st_def using S by (simp add: socket_run_signals)
  have sent_st: "sent st = []"
    unfolding st_def using S sent_run_signals_noop [of bs pre] by simp
  have nodeEnv_st: "nodeEnv st = nodeEnv bh"
    unfolding st_def using env_eq by (simp add: nodeEnv_run)
  have "timer st = timer (run bh (map Signal pre))"
    unfolding st_def using timers by (simp add: timer_run split: option.splits)
  then have bt: "batches st (map Signal post) = batches (run bh (map Signal pre)) (map Signal post)"
    by (rule batches_timer)
  have "sent (run bs (map Signal pre @ Connect # map Signal post))
      = sent (run st (Connect # map Signal post))"
    by (simp add: run_append st_def)
  also have "\<dots> = sent st @ [Entry ''nodeEnv'' (Some (nodeEnv st))] # batches st (map Signal post)"
    using sock by (rule connect_then_signals)
  finally have 4: "sent (run bs (map Signal pre @ Connect # map Signal post))
        = [Entry ''nodeEnv'' (Some (nodeEnv bh))]
            # batches (run bh (map Signal pre)) (map Signal post)"
    by (simp add: sent_st nodeEnv_st bt)
  from 1 2 3 4 show ?thesis by blast
qed


theorem handler_mode_and_socket_mode_batches_witness:
  "apply_plugin (example_env []) plain_compiler (constructor ArgFunction)
      = Inr (handler_bridge, plain_compiler\<lparr>pathinfo := JBool True\<rparr>)
   \<and> apply_plugin (example_env []) plain_compiler (constructor (ArgOptions socket_options))
      = Inr (socket_bridge, plain_compiler\<lparr>pathinfo := JBool True\<rparr>)
   \<and> \<not> opt_handler socket_options
   \<and> received (run handler_bridge [Signal (Compile 0), Signal Invalid]) =
       [[Entry ''status'' (Some (JStr ''Compiling''))],
        [Entry ''status'' (Some (JStr ''Invalidated'')),
         Entry ''progress'' (Some (JNum 0)),
         Entry ''operations'' (Some (JStr ''idle'')),
         Entry ''clear'' None]]
   \<and> sent (run socket_bridge [Signal (Compile 0), Connect, Signal Invalid]) =
       [[Entry ''nodeEnv'' (Some (JStr ''development''))],
        [Entry ''status'' (Some (JStr ''Invalidated'')),
         Entry ''progress'' (Some (JNum 0)),
         Entry ''operations'' (Some (JStr ''idle'')),
         Entry ''clear'' None]]"
proof -
  have a: "apply_plugin (example_env []) plain_compiler (constructor ArgFunction)
      = Inr (handler_bridge, plain_compiler\<lparr>pathinfo := JBool True\<rparr>)"
    by (simp add: example_defs handler_bridge_def)
  have b: "apply_plugin (example_env []) plain_compiler (constructor (ArgOptions socket_options))
      = Inr (socket_bridge, plain_compiler\<lparr>pathinfo := JBool True\<rparr>)"
    by (simp add: example_defs socket_bridge_def)
  have c: "\<not> opt_handler socket_options"
    by (simp add: socket_options_def empty_options_def)
  show ?thesis
    using a b c
      handler_mode_and_socket_mode_batches [OF a b c, of "[Compile 0]" "[Invalid]"]
    by (simp add: handler_bridge_def step_def call_handler_def)
qed

end
